theory Spec2Isabelle
  imports Complex_Main
begin

section \<open>Data model of the highway environments\<close>

text \<open>
  The environments of \<^verbatim>\<open>sdriving/environments/highway.py\<close> keep all agents in one batched
  vehicle, stored under the single key \<^verbatim>\<open>"agent"\<close>: every per-agent quantity is a tensor
  with one row per agent. A tensor of shape \<open>(n, 1)\<close> is modelled as a list with one entry
  per agent, a tensor of shape \<open>(n, 2)\<close> as a list of pairs, a tensor of shape \<open>(n, k)\<close> as a
  list of rows. Floating-point numbers are modelled as real numbers (the one float32 sum
  whose rounding a claim depends on, in \<^verbatim>\<open>add_vehicles_to_world\<close>, is rounded explicitly),
  Python's integers as \<open>int\<close>. Boolean tensors are lists of \<open>bool\<close>: on them \<^verbatim>\<open>+\<close> is disjunction, \<^verbatim>\<open>*\<close> is
  conjunction and \<^verbatim>\<open>~\<close> is negation; in arithmetic with a float tensor a boolean counts
  as \<open>0\<close> or \<open>1\<close> (\<open>of_bool\<close>).

  Elementwise operations are written with \<open>map2\<close>. They agree with the tensor operations
  on operands of equal length; the theorems below are stated for such operands.

  A floating-point division by zero gives an infinity or a NaN, which the reals do not
  have (in HOL \<open>x / 0 = 0\<close>). The only divisors the environments can make zero are the
  horizon, an original distance and a lidar distance; the formulas below are to be read
  for nonzero values of these.
\<close>

type_synonym vec2 = "real \<times> real"

record vehicle =
  position :: "vec2 list"
  destination :: "vec2 list"
  speed :: "real list"
  dimensions :: "vec2 list"

datatype dynamics_model =
    BicycleKinematicsModel "real list" "real list"
  | SplineModel "vec2 list list" "real list"

fun v_lim :: "dynamics_model \<Rightarrow> real list" where
  "v_lim (BicycleKinematicsModel d v) = v"
| "v_lim (SplineModel p v) = v"

record env =
  npoints :: int
  history_len :: int
  nagents :: nat
  horizon :: int
  nsteps :: int
  lidar_noise :: real
  road_length :: real
  road_width :: real
  max_accln :: real
  max_velocity :: real
  accln_rating :: "real list"
  vel_rating :: "real list"
  original_distances :: "real list"
  collision_vector :: "bool list"
  completion_vector :: "bool list"
  agents :: vehicle
  dynamics :: dynamics_model
  queue1 :: "real list list list"
  queue2 :: "real list list list"
  got_spline_state :: bool

section \<open>Reward engine\<close>

text \<open>
  The four summands of the value \<^verbatim>\<open>get_reward\<close> returns, in the order of the
  \<^verbatim>\<open>return\<close> expression.
\<close>

record reward_terms =
  distance_term :: "real list"
  speed_term :: "real list"
  penalty :: "real list"
  goal_reach_bonus :: "real list"

definition get_reward_terms :: "bool list \<Rightarrow> env \<Rightarrow> reward_terms \<times> env" where
  "get_reward_terms new_collisions e =
    (let v = agents e;
         distances0 = map2 (\<lambda>d p. fst d - fst p) (destination v) (position v);
         speeds = speed v;
         reached_goal = map (\<lambda>d. d \<le> 0) distances0;
         distances1 = map abs distances0;
         not_completed = map Not (completion_vector e);
         bonus = map2 (\<lambda>a b. of_bool (a \<and> b)) not_completed reached_goal;
         completion' = map2 (\<or>) (completion_vector e) reached_goal;
         destination' =
           map2 (\<lambda>(p, d) c.
                   (fst p * of_bool c + fst d * of_bool (\<not> c),
                    snd p * of_bool c + snd d * of_bool (\<not> c)))
             (zip (position v) (destination v)) completion';
         distances =
           map2 (*) distances1
             (map2 (\<lambda>nc od. of_bool nc / od) not_completed (original_distances e));
         new_collisions' = map2 (\<lambda>c nc. \<not> c \<and> nc) (collision_vector e) new_collisions;
         pen =
           map2 (+) (map of_bool new_collisions')
             (map (\<lambda>x. x * of_int (horizon e - nsteps e - 1) / of_int (horizon e))
                (map2 (\<lambda>nc d. of_bool nc * d) new_collisions' distances));
         collision' = map2 (\<or>) (collision_vector e) new_collisions'
     in (\<lparr>distance_term =
            map (\<lambda>x. x / of_int (horizon e))
              (map2 (\<lambda>d c. - d * of_bool (\<not> c)) distances collision'),
          speed_term =
            map (\<lambda>x. x / of_int (horizon e))
              (map2 (\<lambda>s c. \<bar>s / 8\<bar> * of_bool c) speeds completion'),
          penalty = pen,
          goal_reach_bonus = bonus\<rparr>,
         e\<lparr>completion_vector := completion',
           collision_vector := collision',
           agents := v\<lparr>destination := destination'\<rparr>\<rparr>))"

definition combine_terms :: "reward_terms \<Rightarrow> real list" where
  "combine_terms t =
     map2 (+)
       (map2 (-) (map2 (-) (distance_term t) (speed_term t)) (penalty t))
       (goal_reach_bonus t)"

definition get_reward :: "bool list \<Rightarrow> real list list \<Rightarrow> env \<Rightarrow> real list \<times> env" where
  "get_reward new_collisions action e =
     (case get_reward_terms new_collisions e of (t, e') \<Rightarrow> (combine_terms t, e'))"

text \<open>Well-shaped episode state: every per-agent tensor has one row per agent.\<close>

definition shaped :: "env \<Rightarrow> bool" where
  "shaped e \<longleftrightarrow>
     length (position (agents e)) = nagents e \<and>
     length (destination (agents e)) = nagents e \<and>
     length (speed (agents e)) = nagents e \<and>
     length (original_distances e) = nagents e \<and>
     length (collision_vector e) = nagents e \<and>
     length (completion_vector e) = nagents e"

text \<open>
  Two locals of \<^verbatim>\<open>get_reward\<close>, per agent: the signed distance to the destination along
  the road (\<^verbatim>\<open>destination[:, 0:1] - position[:, 0:1]\<close>), and the distance after
  \<^verbatim>\<open>distances *= not_completed / self.original_distances\<close>.
\<close>

definition signed_distance :: "env \<Rightarrow> nat \<Rightarrow> real" where
  "signed_distance e i = fst (destination (agents e) ! i) - fst (position (agents e) ! i)"

definition normalized_distance :: "env \<Rightarrow> nat \<Rightarrow> real" where
  "normalized_distance e i =
     \<bar>signed_distance e i\<bar> * (of_bool (\<not> completion_vector e ! i) / original_distances e ! i)"

subsection \<open>The reward formula as the specification words it\<close>

text \<open>
  One agent's reward, following the specification's five steps. The arguments are the
  signed distance \<open>d\<close> to the destination, the speed \<open>s\<close>, the original distance \<open>od\<close>,
  the horizon \<open>h\<close>, the step counter \<open>n\<close>, the flags before the call and the incoming
  collision signal.
\<close>

definition spec_new_collision :: "bool \<Rightarrow> bool \<Rightarrow> bool" where
  "spec_new_collision incoming prev_collided \<longleftrightarrow> incoming \<and> \<not> prev_collided"

definition spec_collided :: "bool \<Rightarrow> bool \<Rightarrow> bool" where
  "spec_collided incoming prev_collided \<longleftrightarrow>
     prev_collided \<or> spec_new_collision incoming prev_collided"

definition spec_completed :: "real \<Rightarrow> bool \<Rightarrow> bool" where
  "spec_completed d prev_completed \<longleftrightarrow> prev_completed \<or> d \<le> 0"

definition spec_normalized_distance :: "real \<Rightarrow> real \<Rightarrow> bool \<Rightarrow> real" where
  "spec_normalized_distance d od prev_completed = \<bar>d\<bar> * of_bool (\<not> prev_completed) / od"

definition spec_collision_penalty :: "real \<Rightarrow> real \<Rightarrow> int \<Rightarrow> int \<Rightarrow> bool \<Rightarrow> bool \<Rightarrow> bool \<Rightarrow> real" where
  "spec_collision_penalty d od h n prev_completed prev_collided incoming =
     of_bool (spec_new_collision incoming prev_collided)
       * (1 + spec_normalized_distance d od prev_completed * of_int (h - n - 1) / of_int h)"

definition spec_goal_bonus :: "real \<Rightarrow> bool \<Rightarrow> real" where
  "spec_goal_bonus d prev_completed = (if \<not> prev_completed \<and> d \<le> 0 then 1 else 0)"

definition spec_reward :: "real \<Rightarrow> real \<Rightarrow> real \<Rightarrow> int \<Rightarrow> int \<Rightarrow> bool \<Rightarrow> bool \<Rightarrow> bool \<Rightarrow> real" where
  "spec_reward d s od h n prev_completed prev_collided incoming =
     - spec_normalized_distance d od prev_completed
         * of_bool (\<not> spec_collided incoming prev_collided) / of_int h
     - \<bar>s\<bar> / 8 * of_bool (spec_completed d prev_completed) / of_int h
     - spec_collision_penalty d od h n prev_completed prev_collided incoming
     + spec_goal_bonus d prev_completed"

section \<open>Episodes\<close>

text \<open>
  Between two calls of \<^verbatim>\<open>get_reward\<close> the physics, which is not part of these sources,
  moves the agents and the step counter advances. A tick holds what the world hands to
  the next call: the agents' positions and speeds, the value of \<^verbatim>\<open>nsteps\<close> and the
  incoming collision signal. An episode is a list of ticks; \<open>episode\<close> gives, for every
  call, the reward terms and the state the call leaves, and \<open>states\<close> the state before
  the first call followed by the state after each call.
\<close>

record tick =
  tick_position :: "vec2 list"
  tick_speed :: "real list"
  tick_nsteps :: int
  tick_collisions :: "bool list"

definition world_update :: "tick \<Rightarrow> env \<Rightarrow> env" where
  "world_update k e =
     e\<lparr>agents := (agents e)\<lparr>position := tick_position k, speed := tick_speed k\<rparr>,
       nsteps := tick_nsteps k\<rparr>"

fun episode :: "env \<Rightarrow> tick list \<Rightarrow> (reward_terms \<times> env) list" where
  "episode e [] = []"
| "episode e (k # ks) =
     (let r = get_reward_terms (tick_collisions k) (world_update k e)
      in r # episode (snd r) ks)"

definition states :: "env \<Rightarrow> tick list \<Rightarrow> env list" where
  "states e ks = e # map snd (episode e ks)"

definition shaped_tick :: "nat \<Rightarrow> tick \<Rightarrow> bool" where
  "shaped_tick n k \<longleftrightarrow>
     length (tick_position k) = n \<and> length (tick_speed k) = n \<and>
     length (tick_collisions k) = n"

section \<open>Observation builder\<close>

text \<open>
  \<open>col\<close> reads a tensor of shape \<open>(n, 1)\<close> as \<open>n\<close> rows of one entry, and \<open>cat_last\<close> is
  \<^verbatim>\<open>torch.cat(ts, dim=-1)\<close> on tensors with the same number of rows: row \<open>i\<close> of the result
  is row \<open>i\<close> of each tensor in turn. (On an empty list \<^verbatim>\<open>torch.cat\<close> raises; the
  environments never call it so.)
\<close>

definition col :: "'a list \<Rightarrow> 'a list list" where
  "col xs = map (\<lambda>x. [x]) xs"

fun cat_last :: "'a list list list \<Rightarrow> 'a list list" where
  "cat_last [] = []"
| "cat_last [t] = t"
| "cat_last (t # ts) = map2 (@) t (cat_last ts)"

text \<open>\<^verbatim>\<open>Tensor.clamp(min=m)\<close>, entry by entry.\<close>

definition clamp_min :: "real \<Rightarrow> real \<Rightarrow> real" where
  "clamp_min m x = max x m"

text \<open>
  A \<^verbatim>\<open>deque(maxlen=m)\<close> is the list of its items, oldest first. \<^verbatim>\<open>append\<close> adds at the
  right and, when that makes the deque longer than \<open>m\<close>, drops the leftmost item. Both
  queues are created by \<^verbatim>\<open>reset\<close> with \<^verbatim>\<open>maxlen=self.history_len\<close>.
\<close>

definition deque_append :: "nat \<Rightarrow> 'a list \<Rightarrow> 'a \<Rightarrow> 'a list" where
  "deque_append m q x = (let q' = q @ [x] in if m < length q' then tl q' else q')"

text \<open>
  The loop \<^verbatim>\<open>while len(self.queue1) <= self.history_len - 1\<close> of \<^verbatim>\<open>get_state\<close>.
\<close>

function fill_queues :: "int \<Rightarrow> 'a \<Rightarrow> 'b \<Rightarrow> 'a list \<times> 'b list \<Rightarrow> 'a list \<times> 'b list" where
  "fill_queues h obs lidar (q1, q2) =
     (if int (length q1) \<le> h - 1
      then fill_queues h obs lidar (deque_append (nat h) q1 obs, deque_append (nat h) q2 lidar)
      else (q1, q2))"
  by pat_completeness auto
termination
  by (relation "measure (\<lambda>(h, obs, lidar, q1, q2). nat (h - int (length q1)))")
     (auto simp: deque_append_def Let_def)

declare fill_queues.simps [simp del]

text \<open>
  The raw state features of the bicycle variants (the local \<^verbatim>\<open>obs\<close> of \<^verbatim>\<open>get_state\<close>).
  The attribute \<^verbatim>\<open>v_lim\<close> of the dynamics classes, which are not part of these sources, is
  read as one velocity limit per agent.
\<close>

definition inv_dist :: "env \<Rightarrow> real list" where
  "inv_dist e =
     (let v = agents e;
          dist = map2 (\<lambda>d p. \<bar>fst d - fst p\<bar>) (destination v) (position v)
      in map (\<lambda>d. 1 / clamp_min 1 d) dist)"

definition state_features :: "env \<Rightarrow> real list list" where
  "state_features e =
     cat_last [col (inv_dist e),
               col (map2 (/) (speed (agents e)) (v_lim (dynamics e))),
               col (accln_rating e),
               col (vel_rating e)]"

text \<open>
  The lidar features. \<open>scan\<close> is what \<^verbatim>\<open>self.world.get_lidar_data_all_vehicles(self.npoints)\<close>
  returns, one row of ray distances per agent; \<open>rnd i j\<close> is the entry of
  \<^verbatim>\<open>torch.rand_like(lidar)\<close> at row \<open>i\<close> and column \<open>j\<close>.
\<close>

definition lidar_features :: "real list list \<Rightarrow> (nat \<Rightarrow> nat \<Rightarrow> real) \<Rightarrow> env \<Rightarrow> real list list" where
  "lidar_features scan rnd e =
     (let lidar = map (map (\<lambda>x. 1 / x)) scan
      in if 0 < lidar_noise e
         then map (\<lambda>(i, row).
                     map (\<lambda>(j, x). x * of_bool (lidar_noise e < rnd i j)) (enumerate 0 row))
                (enumerate 0 lidar)
         else lidar)"

text \<open>The history part of \<^verbatim>\<open>get_state\<close>, the same text in both classes.\<close>

definition push_history ::
  "real list list \<Rightarrow> real list list \<Rightarrow> env \<Rightarrow> (real list list \<times> real list list) \<times> env" where
  "push_history obs lidar e =
     (if 1 < history_len e
      then (case fill_queues (history_len e) obs lidar (queue1 e, queue2 e) of
              (q1, q2) \<Rightarrow>
                (let q1' = deque_append (nat (history_len e)) q1 obs;
                     q2' = deque_append (nat (history_len e)) q2 lidar
                 in ((cat_last q1', cat_last q2'), e\<lparr>queue1 := q1', queue2 := q2'\<rparr>)))
      else ((obs, lidar), e))"

definition get_state ::
  "real list list \<Rightarrow> (nat \<Rightarrow> nat \<Rightarrow> real) \<Rightarrow> env \<Rightarrow> (real list list \<times> real list list) \<times> env" where
  "get_state scan rnd e = push_history (state_features e) (lidar_features scan rnd e) e"













section \<open>Dynamics binding and reset\<close>

datatype error = AssertionError | IndexError | RuntimeError | ValueError

definition store_dynamics :: "vehicle \<Rightarrow> env \<Rightarrow> env" where
  "store_dynamics vehicle e =
     e\<lparr>dynamics :=
         BicycleKinematicsModel (map fst (dimensions vehicle))
           (map (\<lambda>r. r * max_velocity e) (vel_rating e))\<rparr>"

fun cumsum :: "real \<Rightarrow> real list \<Rightarrow> real list" where
  "cumsum acc [] = []"
| "cumsum acc (x # xs) = (acc + x) # cumsum (acc + x) xs"

text \<open>
  The ratings are float32 tensors: \<^verbatim>\<open>(torch.rand(self.nagents, 1) + 1) * 0.5\<close>. A draw \<open>r\<close>
  lies in \<open>[0, 1)\<close>, so the exact sum \<open>r + 1\<close> lies in \<open>[1, 2)\<close>, where the float32 values
  are the multiples of \<open>1 / 2 ^ 23\<close>: the float32 sum is the exact sum rounded to the nearest
  of them, a tie going to the even multiple. The product with \<open>0.5\<close> is exact.
\<close>

definition round_half_even :: "real \<Rightarrow> int" where
  "round_half_even x =
     (let f = \<lfloor>x\<rfloor>; d = x - of_int f
      in if d < 1 / 2 then f
         else if 1 / 2 < d then f + 1
         else if even f then f else f + 1)"

definition float32_add_one :: "real \<Rightarrow> real" where
  "float32_add_one r = of_int (round_half_even ((r + 1) * 2 ^ 23)) / 2 ^ 23"

text \<open>
  \<open>rand i\<close> is the entry of \<^verbatim>\<open>torch.rand(self.nagents, 1)\<close> for agent \<open>i\<close>, and
  \<open>distance_from_destination\<close> is the method of the batched vehicle, which is not part of
  these sources. With no agent the concatenation of \<^verbatim>\<open>diffs\<close> (one row) with
  \<^verbatim>\<open>torch.zeros(self.nagents, 1)\<close> (no row) raises.
\<close>

definition add_vehicles_to_world ::
  "(nat \<Rightarrow> real) \<Rightarrow> (vehicle \<Rightarrow> real list) \<Rightarrow> env \<Rightarrow> error + env" where
  "add_vehicles_to_world rand distance_from_destination e =
     (if nagents e = 0 then Inl RuntimeError
      else
        (let dims = replicate (nagents e) (448 / 100, 22 / 10);
             e1 = e\<lparr>max_accln := 3, max_velocity := 16\<rparr>;
             diffs = zip (cumsum 0 (0 # replicate (nagents e - 1) 10)) (replicate (nagents e) 0);
             spos = map (\<lambda>(dx, dy). (- road_length e1 / 2 + 30 + dx, 0 + dy)) diffs;
             epos = replicate (nagents e) (road_length e1 / 2 - 50, 0);
             vehicle = \<lparr>position = spos, destination = epos,
                        speed = replicate (nagents e) 0, dimensions = dims\<rparr>;
             e2 = e1\<lparr>accln_rating :=
                    map (\<lambda>i. float32_add_one (rand i) * (1 / 2)) [0..<nagents e]\<rparr>;
             e3 = e2\<lparr>vel_rating := accln_rating e2\<rparr>;
             e4 = store_dynamics vehicle e3;
             e5 = e4\<lparr>agents := vehicle\<rparr>
         in Inr (e5\<lparr>original_distances := distance_from_destination vehicle\<rparr>)))"

text \<open>
  \<^verbatim>\<open>reset\<close> ends in the base class's \<^verbatim>\<open>reset\<close>, which is not part of these sources and is
  the parameter \<open>super_reset\<close>. \<^verbatim>\<open>deque(maxlen=m)\<close> raises for a negative \<open>m\<close>.
\<close>

definition reset ::
  "(env \<Rightarrow> 'r) \<Rightarrow> (nat \<Rightarrow> real) \<Rightarrow> (vehicle \<Rightarrow> real list) \<Rightarrow> env \<Rightarrow> error + 'r" where
  "reset super_reset rand distance_from_destination e =
     (case add_vehicles_to_world rand distance_from_destination
             (e\<lparr>road_length := 250, road_width := 25\<rparr>) of
        Inl err \<Rightarrow> Inl err
      | Inr e1 \<Rightarrow>
          if history_len e1 < 0 then Inl ValueError
          else Inr (super_reset (e1\<lparr>queue1 := [], queue2 := []\<rparr>)))"

section \<open>The spline variant\<close>

datatype observation =
    Rating "real list"
  | History "real list list" "real list list"

definition spline_state_features :: "env \<Rightarrow> real list list" where
  "spline_state_features e =
     cat_last [col (inv_dist e),
               col (map2 (/) (speed (agents e)) (v_lim (dynamics e)))]"

definition spline_get_state ::
  "real list list \<Rightarrow> (nat \<Rightarrow> nat \<Rightarrow> real) \<Rightarrow> env \<Rightarrow> observation \<times> env" where
  "spline_get_state scan rnd e =
     (if \<not> got_spline_state e then (Rating (accln_rating e), e\<lparr>got_spline_state := True\<rparr>)
      else (case push_history (spline_state_features e) (lidar_features scan rnd e) e of
              ((s, l), e') \<Rightarrow> (History s l, e')))"

definition spline_reset ::
  "(env \<Rightarrow> 'r) \<Rightarrow> (nat \<Rightarrow> real) \<Rightarrow> (vehicle \<Rightarrow> real list) \<Rightarrow> env \<Rightarrow> error + 'r" where
  "spline_reset super_reset rand distance_from_destination e =
     reset super_reset rand distance_from_destination (e\<lparr>got_spline_state := False\<rparr>)"

definition discrete_to_continuous_actions_v2 :: "real list \<Rightarrow> real list" where
  "discrete_to_continuous_actions_v2 action = action"

text \<open>
  The four path points of every agent, as the stage-0 branch of \<^verbatim>\<open>step\<close> builds them from
  the positions \<open>pos\<close> and the offsets \<open>action\<close> (a tensor of shape \<open>(n, 1)\<close>).
\<close>

definition spline_path :: "env \<Rightarrow> vec2 list \<Rightarrow> real list \<Rightarrow> vec2 list list" where
  "spline_path e pos action =
     (let farthest_pt = replicate (length action) (- road_length e / 2, snd (pos ! 0));
          mid_point_x = map (\<lambda>p. fst p + 50) pos;
          mid_point_y = map2 (\<lambda>p a. snd p + a * road_width e / 2) pos action;
          mid_point = zip mid_point_x mid_point_y;
          last_pt = zip (replicate (length pos) (road_length e / 2)) mid_point_y
      in map (\<lambda>(p, m, l, f). [p, m, l, f])
           (zip pos (zip mid_point (zip last_pt farthest_pt))))"

datatype 'r step_result =
    Committed observation
  | Stepped 'r

text \<open>
  \<^verbatim>\<open>step\<close> of the spline variant. The base class's \<^verbatim>\<open>step\<close> is not part of these sources
  and is the parameter \<open>super_step\<close>. \<^verbatim>\<open>pos[0, 1]\<close> raises when there is no agent, and the
  tensors built from \<open>pos\<close> and \<open>action\<close> cannot be concatenated unless both have the same
  number of rows.
\<close>

definition step ::
  "(real list \<Rightarrow> bool \<Rightarrow> env \<Rightarrow> error + 'r \<times> env) \<Rightarrow> real list list \<Rightarrow> (nat \<Rightarrow> nat \<Rightarrow> real) \<Rightarrow>
     int \<Rightarrow> real list \<Rightarrow> bool \<Rightarrow> env \<Rightarrow> error + 'r step_result \<times> env" where
  "step super_step scan rnd stage action render e =
     (if stage \<notin> set [0, 1] then Inl AssertionError
      else if stage = 1 then
        (case super_step action render e of
           Inl err \<Rightarrow> Inl err
         | Inr (r, e') \<Rightarrow> Inr (Stepped r, e'))
      else
        (let action' = discrete_to_continuous_actions_v2 action;
             pos = position (agents e)
         in if pos = [] then Inl IndexError
            else if length action' \<noteq> length pos then Inl RuntimeError
            else
              (let e' = e\<lparr>dynamics :=
                           SplineModel (spline_path e pos action')
                             (map (\<lambda>r. r * max_velocity e) (vel_rating e))\<rparr>
               in case spline_get_state scan rnd e' of
                    (obs, e'') \<Rightarrow> Inr (Committed obs, e''))))"

text \<open>
  Well-shaped inputs of the observation builder: besides the agents' tensors, the two
  ratings and the velocity limits have one entry per agent.
\<close>

definition shaped_obs :: "env \<Rightarrow> bool" where
  "shaped_obs e \<longleftrightarrow>
     length (position (agents e)) = nagents e \<and>
     length (destination (agents e)) = nagents e \<and>
     length (speed (agents e)) = nagents e \<and>
     length (accln_rating e) = nagents e \<and>
     length (vel_rating e) = nagents e \<and>
     length (v_lim (dynamics e)) = nagents e"

text \<open>The path points a spline binding was built from (none for the bicycle model).\<close>

fun spline_points :: "dynamics_model \<Rightarrow> vec2 list list" where
  "spline_points (BicycleKinematicsModel d v) = []"
| "spline_points (SplineModel p v) = p"

section \<open>Concrete states\<close>

text \<open>
  A state of two agents in the middle of an episode: the first agent is five units short
  of its destination, the second has passed it.
\<close>

definition example_env :: env where
  "example_env =
     \<lparr>npoints = 3, history_len = 2, nagents = 2, horizon = 10, nsteps = 3,
      lidar_noise = 0, road_length = 250, road_width = 25,
      max_accln = 3, max_velocity = 16,
      accln_rating = [3 / 4, 1 / 2], vel_rating = [3 / 4, 1 / 2],
      original_distances = [170, 160],
      collision_vector = [False, False], completion_vector = [False, False],
      agents = \<lparr>position = [(70, 0), (80, 0)], destination = [(75, 0), (75, 0)],
                speed = [2, 4], dimensions = [(448 / 100, 22 / 10), (448 / 100, 22 / 10)]\<rparr>,
      dynamics = BicycleKinematicsModel [448 / 100, 448 / 100] [12, 8],
      queue1 = [], queue2 = [], got_spline_state = False\<rparr>"


text \<open>
  Two ticks from that state: the first agent collides at the first tick, the second agent
  is beyond its destination and keeps moving.
\<close>

definition example_ticks :: "tick list" where
  "example_ticks =
     [\<lparr>tick_position = [(70, 0), (80, 0)], tick_speed = [2, 4], tick_nsteps = 3,
       tick_collisions = [True, False]\<rparr>,
      \<lparr>tick_position = [(71, 0), (82, 0)], tick_speed = [2, 4], tick_nsteps = 4,
       tick_collisions = [True, False]\<rparr>]"


text \<open>
  The pieces of a concrete reset from that state: the random draws of the ratings, the
  distances the batched vehicle reports, a lidar scan of three rays per agent with its
  noise draws, and the state in which \<^verbatim>\<open>reset\<close> hands over to the base class.
\<close>

definition example_rand :: "nat \<Rightarrow> real" where
  "example_rand i = (if i = 0 then 1 / 2 else 0)"

text \<open>The largest value a float32 draw in \<open>[0, 1)\<close> can take.\<close>

definition largest_draw :: "nat \<Rightarrow> real" where
  "largest_draw i = 1 - 1 / 2 ^ 24"

definition example_distance :: "vehicle \<Rightarrow> real list" where
  "example_distance v = map2 (\<lambda>d p. \<bar>fst d - fst p\<bar>) (destination v) (position v)"



definition example_start :: env where
  "example_start =
     example_env\<lparr>agents :=
       \<lparr>position = [(- 95, 0), (- 85, 0)], destination = [(75, 0), (75, 0)],
        speed = [0, 0], dimensions = [(448 / 100, 22 / 10), (448 / 100, 22 / 10)]\<rparr>\<rparr>"




section \<open>Properties of the reward engine\<close>

subsection \<open>One call, agent by agent\<close>

lemma get_reward_terms_shaped:
  assumes "shaped e" "length nc = nagents e"
  shows "shaped (snd (get_reward_terms nc e))"
  using assms by (simp add: get_reward_terms_def shaped_def Let_def)

lemma collision_nth:
  assumes "shaped e" "length nc = nagents e" "i < nagents e"
  shows "collision_vector (snd (get_reward_terms nc e)) ! i
           = (collision_vector e ! i \<or> (\<not> collision_vector e ! i \<and> nc ! i))"
  using assms by (simp add: get_reward_terms_def shaped_def Let_def)

lemma completion_nth:
  assumes "shaped e" "i < nagents e"
  shows "completion_vector (snd (get_reward_terms nc e)) ! i
           = (completion_vector e ! i \<or> signed_distance e i \<le> 0)"
  using assms by (simp add: get_reward_terms_def shaped_def Let_def signed_distance_def)

lemma destination_nth:
  assumes "shaped e" "i < nagents e"
  shows "destination (agents (snd (get_reward_terms nc e))) ! i
           = (if completion_vector e ! i \<or> signed_distance e i \<le> 0
              then position (agents e) ! i else destination (agents e) ! i)"
  using assms by (simp add: get_reward_terms_def shaped_def Let_def signed_distance_def)

lemma penalty_nth:
  assumes "shaped e" "length nc = nagents e" "i < nagents e"
  shows "penalty (fst (get_reward_terms nc e)) ! i
           = of_bool (\<not> collision_vector e ! i \<and> nc ! i)
             + of_bool (\<not> collision_vector e ! i \<and> nc ! i) * normalized_distance e i
               * of_int (horizon e - nsteps e - 1) / of_int (horizon e)"
  using assms by (simp add: get_reward_terms_def shaped_def Let_def signed_distance_def normalized_distance_def)

lemma bonus_nth:
  assumes "shaped e" "i < nagents e"
  shows "goal_reach_bonus (fst (get_reward_terms nc e)) ! i
           = of_bool (\<not> completion_vector e ! i \<and> signed_distance e i \<le> 0)"
  using assms by (simp add: get_reward_terms_def shaped_def Let_def signed_distance_def)

lemma distance_term_nth:
  assumes "shaped e" "length nc = nagents e" "i < nagents e"
  shows "distance_term (fst (get_reward_terms nc e)) ! i
           = - normalized_distance e i
               * of_bool (\<not> collision_vector (snd (get_reward_terms nc e)) ! i) / of_int (horizon e)"
  using assms by (simp add: get_reward_terms_def shaped_def Let_def signed_distance_def normalized_distance_def)

lemma speed_term_nth:
  assumes "shaped e" "i < nagents e"
  shows "speed_term (fst (get_reward_terms nc e)) ! i
           = \<bar>speed (agents e) ! i / 8\<bar>
               * of_bool (completion_vector (snd (get_reward_terms nc e)) ! i) / of_int (horizon e)"
  using assms by (simp add: get_reward_terms_def shaped_def Let_def signed_distance_def)

lemma terms_lengths:
  assumes "shaped e" "length nc = nagents e"
  shows "length (distance_term (fst (get_reward_terms nc e))) = nagents e"
    "length (speed_term (fst (get_reward_terms nc e))) = nagents e"
    "length (penalty (fst (get_reward_terms nc e))) = nagents e"
    "length (goal_reach_bonus (fst (get_reward_terms nc e))) = nagents e"
  using assms by (simp_all add: get_reward_terms_def shaped_def Let_def)

lemma get_reward_terms_frame:
  "nagents (snd (get_reward_terms nc e)) = nagents e"
  "horizon (snd (get_reward_terms nc e)) = horizon e"
  "nsteps (snd (get_reward_terms nc e)) = nsteps e"
  "original_distances (snd (get_reward_terms nc e)) = original_distances e"
  "position (agents (snd (get_reward_terms nc e))) = position (agents e)"
  "speed (agents (snd (get_reward_terms nc e))) = speed (agents e)"
  by (simp_all add: get_reward_terms_def Let_def)

lemma example_env_shaped: "shaped example_env"
  by (simp add: shaped_def example_env_def)

subsection \<open>The reward formula\<close>

text \<open>
  Claim C1. For every call of \<^verbatim>\<open>get_reward\<close> on well-shaped tensors, the reward returned
  for agent \<open>i\<close> is the specification's formula:
  \<open>- normalized_distance * (NOT collided) / horizon - |speed| / 8 * completed / horizon
  - collision_penalty + goal_bonus\<close>, where the normalized distance is the remaining distance
  times \<open>NOT previously-completed\<close> over the original distance, the collision penalty is
  \<open>new_collision * (1 + normalized_distance * (horizon - nsteps - 1) / horizon)\<close> with
  \<open>new_collision = incoming AND NOT previously-collided\<close>, the goal bonus is \<open>1\<close> exactly for
  an agent that is newly reached, and the flags in the distance and speed terms are the
  flags the call stores (the post-update flags).
\<close>

theorem get_reward_formula:
  assumes "shaped e" "length nc = nagents e" "i < nagents e"
  shows "fst (get_reward nc a e) ! i
           = spec_reward (signed_distance e i) (speed (agents e) ! i) (original_distances e ! i)
               (horizon e) (nsteps e) (completion_vector e ! i) (collision_vector e ! i) (nc ! i)
         \<and> collision_vector (snd (get_reward nc a e)) ! i
             = spec_collided (nc ! i) (collision_vector e ! i)
         \<and> completion_vector (snd (get_reward nc a e)) ! i
             = spec_completed (signed_distance e i) (completion_vector e ! i)"
proof -
  obtain t e' where te: "get_reward_terms nc e = (t, e')"
    by (cases "get_reward_terms nc e")
  have t: "t = fst (get_reward_terms nc e)" and e': "e' = snd (get_reward_terms nc e)"
    using te by simp_all
  have len: "length (distance_term t) = nagents e" "length (speed_term t) = nagents e"
    "length (penalty t) = nagents e" "length (goal_reach_bonus t) = nagents e"
    unfolding t using terms_lengths [OF assms(1,2)] by simp_all
  have coll: "collision_vector e' ! i = spec_collided (nc ! i) (collision_vector e ! i)"
    unfolding e' using collision_nth [OF assms]
    by (auto simp: spec_collided_def spec_new_collision_def)
  have comp: "completion_vector e' ! i
                = spec_completed (signed_distance e i) (completion_vector e ! i)"
    unfolding e' using completion_nth [OF assms(1,3)] by (simp add: spec_completed_def)
  have nd: "normalized_distance e i
              = spec_normalized_distance (signed_distance e i) (original_distances e ! i)
                  (completion_vector e ! i)"
    by (simp add: normalized_distance_def spec_normalized_distance_def)
  have r: "fst (get_reward nc a e) ! i
             = distance_term t ! i - speed_term t ! i - penalty t ! i + goal_reach_bonus t ! i"
    using assms(3) len by (simp add: get_reward_def te combine_terms_def)
  have d: "distance_term t ! i
             = - normalized_distance e i * of_bool (\<not> collision_vector e' ! i) / of_int (horizon e)"
    unfolding t e' by (rule distance_term_nth [OF assms])
  have s: "speed_term t ! i
             = \<bar>speed (agents e) ! i / 8\<bar> * of_bool (completion_vector e' ! i) / of_int (horizon e)"
    unfolding t e' by (rule speed_term_nth [OF assms(1,3)])
  have p: "penalty t ! i
             = spec_collision_penalty (signed_distance e i) (original_distances e ! i)
                 (horizon e) (nsteps e) (completion_vector e ! i) (collision_vector e ! i) (nc ! i)"
    unfolding t using penalty_nth [OF assms]
    by (auto simp: spec_collision_penalty_def spec_new_collision_def nd algebra_simps)
  have b: "goal_reach_bonus t ! i = spec_goal_bonus (signed_distance e i) (completion_vector e ! i)"
    unfolding t using bonus_nth [OF assms(1,3)] by (simp add: spec_goal_bonus_def)
  have "fst (get_reward nc a e) ! i
          = spec_reward (signed_distance e i) (speed (agents e) ! i) (original_distances e ! i)
              (horizon e) (nsteps e) (completion_vector e ! i) (collision_vector e ! i) (nc ! i)"
    unfolding r d s p b coll comp nd by (simp add: spec_reward_def)
  moreover have "snd (get_reward nc a e) = e'"
    by (simp add: get_reward_def te)
  ultimately show ?thesis using coll comp by simp
qed

theorem get_reward_formula_witness:
  "shaped example_env \<and> length [True, False] = nagents example_env \<and> (0::nat) < nagents example_env
   \<and> fst (get_reward [True, False] [] example_env) ! 0 = - 173 / 170
   \<and> spec_reward 5 2 170 10 3 False False True = - 173 / 170"
proof -
  have a: "shaped example_env" by (rule example_env_shaped)
  have b: "length [True, False] = nagents example_env" by (simp add: example_env_def)
  have c: "(0::nat) < nagents example_env" by (simp add: example_env_def)
  have sd: "signed_distance example_env 0 = 5"
    by (simp add: signed_distance_def example_env_def)
  have v: "spec_reward 5 2 170 10 3 False False True = - 173 / 170"
    by (simp add: spec_reward_def spec_normalized_distance_def spec_collided_def
        spec_new_collision_def spec_completed_def spec_collision_penalty_def spec_goal_bonus_def)
  have "fst (get_reward [True, False] [] example_env) ! 0 = spec_reward 5 2 170 10 3 False False True"
    using get_reward_formula [OF a b c, of "[]"] sd by (simp add: example_env_def)
  then show ?thesis using a b c v by simp
qed


subsection \<open>Episodes, step by step\<close>

lemma world_update_frame:
  "nagents (world_update k e) = nagents e"
  "horizon (world_update k e) = horizon e"
  "nsteps (world_update k e) = tick_nsteps k"
  "original_distances (world_update k e) = original_distances e"
  "collision_vector (world_update k e) = collision_vector e"
  "completion_vector (world_update k e) = completion_vector e"
  "destination (agents (world_update k e)) = destination (agents e)"
  "position (agents (world_update k e)) = tick_position k"
  "speed (agents (world_update k e)) = tick_speed k"
  by (simp_all add: world_update_def)

lemma world_update_shaped:
  assumes "shaped e" "shaped_tick (nagents e) k"
  shows "shaped (world_update k e)"
  using assms by (simp add: shaped_def shaped_tick_def world_update_def)

lemma states_Nil: "states e [] = [e]"
  by (simp add: states_def)

lemma states_Cons:
  "states e (k # ks)
     = e # states (snd (get_reward_terms (tick_collisions k) (world_update k e))) ks"
  by (simp add: states_def Let_def)

lemma length_episode: "length (episode e ks) = length ks"
  by (induction ks arbitrary: e) (simp_all add: Let_def)

lemma length_states: "length (states e ks) = Suc (length ks)"
  by (simp add: states_def length_episode)

lemma states_0: "states e ks ! 0 = e"
  by (simp add: states_def)

lemma episode_nth:
  "t < length ks \<Longrightarrow>
     episode e ks ! t
       = get_reward_terms (tick_collisions (ks ! t)) (world_update (ks ! t) (states e ks ! t))"
proof (induction ks arbitrary: e t)
  case Nil
  then show ?case by simp
next
  case (Cons k ks)
  show ?case
  proof (cases t)
    case 0
    then show ?thesis by (simp add: Let_def states_0)
  next
    case (Suc t')
    with Cons.prems have "t' < length ks" by simp
    from Cons.IH [OF this] Suc show ?thesis
      by (simp add: Let_def states_Cons)
  qed
qed

lemma states_Suc:
  assumes "t < length ks"
  shows "states e ks ! Suc t = snd (episode e ks ! t)"
  using assms by (simp add: states_def length_episode)

lemma states_shaped:
  assumes "shaped e" "\<forall>k\<in>set ks. shaped_tick (nagents e) k" "t \<le> length ks"
  shows "shaped (states e ks ! t) \<and> nagents (states e ks ! t) = nagents e
         \<and> horizon (states e ks ! t) = horizon e
         \<and> original_distances (states e ks ! t) = original_distances e"
  using assms(3)
proof (induction t)
  case 0
  then show ?case using assms(1) by (simp add: states_0)
next
  case (Suc t)
  then have t: "t < length ks" and ih: "shaped (states e ks ! t)"
    "nagents (states e ks ! t) = nagents e" "horizon (states e ks ! t) = horizon e"
    "original_distances (states e ks ! t) = original_distances e"
    by simp_all
  have k: "shaped_tick (nagents e) (ks ! t)" using assms(2) t by simp
  have w: "shaped (world_update (ks ! t) (states e ks ! t))"
    using world_update_shaped ih k by simp
  have l: "length (tick_collisions (ks ! t)) = nagents (world_update (ks ! t) (states e ks ! t))"
    using k ih by (simp add: shaped_tick_def world_update_frame)
  show ?case
    using get_reward_terms_shaped [OF w l] ih
    by (simp add: states_Suc [OF t] episode_nth [OF t] get_reward_terms_frame world_update_frame)
qed

text \<open>One step of an episode, seen from agent \<open>i\<close>.\<close>

lemma step_facts:
  assumes "shaped e" "\<forall>k\<in>set ks. shaped_tick (nagents e) k" "t < length ks" "i < nagents e"
  shows "shaped (world_update (ks ! t) (states e ks ! t))"
    and "length (tick_collisions (ks ! t)) = nagents (world_update (ks ! t) (states e ks ! t))"
    and "i < nagents (world_update (ks ! t) (states e ks ! t))"
proof -
  have s: "shaped (states e ks ! t)" "nagents (states e ks ! t) = nagents e"
    using states_shaped [OF assms(1,2), of t] assms(3) by simp_all
  have k: "shaped_tick (nagents e) (ks ! t)" using assms(2,3) by simp
  show "shaped (world_update (ks ! t) (states e ks ! t))"
    using world_update_shaped s k by simp
  show "length (tick_collisions (ks ! t)) = nagents (world_update (ks ! t) (states e ks ! t))"
    using k s by (simp add: shaped_tick_def world_update_frame)
  show "i < nagents (world_update (ks ! t) (states e ks ! t))"
    using s assms(4) by (simp add: world_update_frame)
qed

lemma collision_step:
  assumes "shaped e" "\<forall>k\<in>set ks. shaped_tick (nagents e) k" "t < length ks" "i < nagents e"
  shows "collision_vector (states e ks ! Suc t) ! i
           = (collision_vector (states e ks ! t) ! i
              \<or> (\<not> collision_vector (states e ks ! t) ! i \<and> tick_collisions (ks ! t) ! i))"
  using collision_nth [OF step_facts [OF assms]]
  by (simp add: states_Suc [OF assms(3)] episode_nth [OF assms(3)] world_update_frame)

lemma completion_step:
  assumes "shaped e" "\<forall>k\<in>set ks. shaped_tick (nagents e) k" "t < length ks" "i < nagents e"
  shows "completion_vector (states e ks ! Suc t) ! i
           = (completion_vector (states e ks ! t) ! i
              \<or> signed_distance (world_update (ks ! t) (states e ks ! t)) i \<le> 0)"
  using completion_nth [OF step_facts(1,3) [OF assms]]
  by (simp add: states_Suc [OF assms(3)] episode_nth [OF assms(3)] world_update_frame)

lemma collision_mono:
  assumes "shaped e" "\<forall>k\<in>set ks. shaped_tick (nagents e) k" "i < nagents e"
    "t \<le> t'" "t' \<le> length ks" "collision_vector (states e ks ! t) ! i"
  shows "collision_vector (states e ks ! t') ! i"
  using assms(4,5)
proof (induction t' rule: dec_induct)
  case base
  then show ?case using assms(6) by simp
next
  case (step n)
  then have "n < length ks" by simp
  from collision_step [OF assms(1,2) this assms(3)] step show ?case by simp
qed

lemma completion_mono:
  assumes "shaped e" "\<forall>k\<in>set ks. shaped_tick (nagents e) k" "i < nagents e"
    "t \<le> t'" "t' \<le> length ks" "completion_vector (states e ks ! t) ! i"
  shows "completion_vector (states e ks ! t') ! i"
  using assms(4,5)
proof (induction t' rule: dec_induct)
  case base
  then show ?case using assms(6) by simp
next
  case (step n)
  then have "n < length ks" by simp
  from completion_step [OF assms(1,2) this assms(3)] step show ?case by simp
qed

lemma penalty_step:
  assumes "shaped e" "\<forall>k\<in>set ks. shaped_tick (nagents e) k" "t < length ks" "i < nagents e"
  shows "penalty (fst (episode e ks ! t)) ! i
           = of_bool (tick_collisions (ks ! t) ! i \<and> \<not> collision_vector (states e ks ! t) ! i)
             * (1 + normalized_distance (world_update (ks ! t) (states e ks ! t)) i
                      * of_int (horizon e - tick_nsteps (ks ! t) - 1) / of_int (horizon e))"
proof -
  have h: "horizon (states e ks ! t) = horizon e"
    using states_shaped [OF assms(1,2), of t] assms(3) by simp
  show ?thesis
    using penalty_nth [OF step_facts [OF assms]] h
    by (auto simp: episode_nth [OF assms(3)] world_update_frame algebra_simps)
qed

lemma bonus_step:
  assumes "shaped e" "\<forall>k\<in>set ks. shaped_tick (nagents e) k" "t < length ks" "i < nagents e"
  shows "goal_reach_bonus (fst (episode e ks ! t)) ! i
           = of_bool (signed_distance (world_update (ks ! t) (states e ks ! t)) i \<le> 0
                      \<and> \<not> completion_vector (states e ks ! t) ! i)"
  using bonus_nth [OF step_facts(1,3) [OF assms]]
  by (auto simp: episode_nth [OF assms(3)] world_update_frame)

lemma distance_term_step:
  assumes "shaped e" "\<forall>k\<in>set ks. shaped_tick (nagents e) k" "t < length ks" "i < nagents e"
  shows "distance_term (fst (episode e ks ! t)) ! i
           = - normalized_distance (world_update (ks ! t) (states e ks ! t)) i
               * of_bool (\<not> collision_vector (states e ks ! Suc t) ! i) / of_int (horizon e)"
proof -
  have h: "horizon (states e ks ! t) = horizon e"
    using states_shaped [OF assms(1,2), of t] assms(3) by simp
  show ?thesis
    using distance_term_nth [OF step_facts [OF assms]] h
    by (simp add: states_Suc [OF assms(3)] episode_nth [OF assms(3)] world_update_frame)
qed

lemma destination_step:
  assumes "shaped e" "\<forall>k\<in>set ks. shaped_tick (nagents e) k" "t < length ks" "i < nagents e"
  shows "destination (agents (states e ks ! Suc t)) ! i
           = (if completion_vector (states e ks ! Suc t) ! i then tick_position (ks ! t) ! i
              else destination (agents (states e ks ! t)) ! i)"
  using destination_nth [OF step_facts(1,3) [OF assms]] completion_step [OF assms]
  by (simp add: states_Suc [OF assms(3)] episode_nth [OF assms(3)] world_update_frame)


lemma example_ticks_shaped: "\<forall>k\<in>set example_ticks. shaped_tick (nagents example_env) k"
  by (simp add: example_ticks_def example_env_def shaped_tick_def)

lemma example_state_1:
  "states example_env example_ticks ! 1
     = example_env\<lparr>completion_vector := [False, True], collision_vector := [True, False],
         agents := \<lparr>position = [(70, 0), (80, 0)], destination = [(75, 0), (80, 0)],
                     speed = [2, 4], dimensions = [(448 / 100, 22 / 10), (448 / 100, 22 / 10)]\<rparr>\<rparr>"
  by (simp add: states_def example_ticks_def example_env_def world_update_def
      get_reward_terms_def Let_def)

lemma example_state_2:
  "states example_env example_ticks ! 2
     = example_env\<lparr>completion_vector := [False, True], collision_vector := [True, False],
         nsteps := 4,
         agents := \<lparr>position = [(71, 0), (82, 0)], destination = [(75, 0), (82, 0)],
                     speed = [2, 4], dimensions = [(448 / 100, 22 / 10), (448 / 100, 22 / 10)]\<rparr>\<rparr>"
  by (simp add: states_def example_ticks_def example_env_def world_update_def
      get_reward_terms_def Let_def)

subsection \<open>Monotone flags\<close>

text \<open>
  Claim C5. Over an episode the flags \<^verbatim>\<open>collision_vector\<close> and \<^verbatim>\<open>completion_vector\<close> never
  go back: a flag of agent \<open>i\<close> that is true in the state at step \<open>t\<close> is true in the state
  at every later step \<open>t'\<close>. A new event is the incoming signal and not the previous flag:
  the stored collision flag becomes the old flag or such a new collision, the collision
  penalty is charged exactly on a new collision, and the goal bonus is paid exactly when the
  goal is reached and the agent was not completed before.
\<close>

theorem flags_monotone:
  assumes "shaped e" "\<forall>k\<in>set ks. shaped_tick (nagents e) k" "i < nagents e"
    "t \<le> t'" "t' \<le> length ks"
  shows "(collision_vector (states e ks ! t) ! i \<longrightarrow> collision_vector (states e ks ! t') ! i)
       \<and> (completion_vector (states e ks ! t) ! i \<longrightarrow> completion_vector (states e ks ! t') ! i)
       \<and> (t < length ks \<longrightarrow>
            collision_vector (states e ks ! Suc t) ! i
              = (collision_vector (states e ks ! t) ! i
                 \<or> (tick_collisions (ks ! t) ! i \<and> \<not> collision_vector (states e ks ! t) ! i))
          \<and> penalty (fst (episode e ks ! t)) ! i
              = of_bool (tick_collisions (ks ! t) ! i \<and> \<not> collision_vector (states e ks ! t) ! i)
                * (1 + normalized_distance (world_update (ks ! t) (states e ks ! t)) i
                         * of_int (horizon e - tick_nsteps (ks ! t) - 1) / of_int (horizon e))
          \<and> goal_reach_bonus (fst (episode e ks ! t)) ! i
              = of_bool (signed_distance (world_update (ks ! t) (states e ks ! t)) i \<le> 0
                         \<and> \<not> completion_vector (states e ks ! t) ! i))"
proof (intro conjI impI)
  assume "collision_vector (states e ks ! t) ! i"
  then show "collision_vector (states e ks ! t') ! i"
    using collision_mono [OF assms] by simp
next
  assume "completion_vector (states e ks ! t) ! i"
  then show "completion_vector (states e ks ! t') ! i"
    using completion_mono [OF assms] by simp
next
  assume t: "t < length ks"
  show "collision_vector (states e ks ! Suc t) ! i
          = (collision_vector (states e ks ! t) ! i
             \<or> (tick_collisions (ks ! t) ! i \<and> \<not> collision_vector (states e ks ! t) ! i))"
    using collision_step [OF assms(1,2) t assms(3)] by blast
next
  assume t: "t < length ks"
  show "penalty (fst (episode e ks ! t)) ! i
          = of_bool (tick_collisions (ks ! t) ! i \<and> \<not> collision_vector (states e ks ! t) ! i)
            * (1 + normalized_distance (world_update (ks ! t) (states e ks ! t)) i
                     * of_int (horizon e - tick_nsteps (ks ! t) - 1) / of_int (horizon e))"
    by (rule penalty_step [OF assms(1,2) t assms(3)])
next
  assume t: "t < length ks"
  show "goal_reach_bonus (fst (episode e ks ! t)) ! i
          = of_bool (signed_distance (world_update (ks ! t) (states e ks ! t)) i \<le> 0
                     \<and> \<not> completion_vector (states e ks ! t) ! i)"
    by (rule bonus_step [OF assms(1,2) t assms(3)])
qed

theorem flags_monotone_witness:
  "shaped example_env
   \<and> (0::nat) < nagents example_env \<and> (1::nat) \<le> 2 \<and> 2 \<le> length example_ticks
   \<and> collision_vector (states example_env example_ticks ! 1) ! 0
   \<and> collision_vector (states example_env example_ticks ! 2) ! 0
   \<and> penalty (fst (episode example_env example_ticks ! 1)) ! 0 = 0"
proof -
  have a: "shaped example_env" by (rule example_env_shaped)
  have b: "\<forall>k\<in>set example_ticks. shaped_tick (nagents example_env) k"
    by (rule example_ticks_shaped)
  have c: "(0::nat) < nagents example_env" by (simp add: example_env_def)
  have d: "(1::nat) \<le> 2" by simp
  have l: "2 \<le> length example_ticks" by (simp add: example_ticks_def)
  have l': "1 < length example_ticks" by (simp add: example_ticks_def)
  have c1: "collision_vector (states example_env example_ticks ! 1) ! 0"
    using example_state_1 by simp
  from flags_monotone [OF a b c d l] c1 l'
  have "collision_vector (states example_env example_ticks ! 2) ! 0"
    and "penalty (fst (episode example_env example_ticks ! 1)) ! 0 = 0"
    by simp_all
  then show ?thesis using a b c d l c1 by simp
qed




lemma normalized_distance_completed:
  assumes "completion_vector e ! i"
  shows "normalized_distance e i = 0"
  using assms by (simp add: normalized_distance_def)

subsection \<open>Single collision charge\<close>



subsection \<open>The destination of a completed agent\<close>

text \<open>
  Claim C3 as stated fails: the second agent of the example is completed after the first
  call, moves on, and the second call stores a different destination for it.
\<close>

theorem destination_freeze_counterexample:
  "completion_vector (states example_env example_ticks ! 1) ! 1
   \<and> destination (agents (states example_env example_ticks ! 2)) ! 1
       \<noteq> destination (agents (states example_env example_ticks ! 1)) ! 1"
  using example_state_1 example_state_2 by simp

text \<open>
  Claim C3, amended. Once \<^verbatim>\<open>completion_vector[i]\<close> is true, every later call of
  \<^verbatim>\<open>get_reward\<close> stores the position agent \<open>i\<close> has at that call as its destination (so the
  destination stays the same exactly as long as the agent does not move), the distance term
  of agent \<open>i\<close> is zero at each of these calls, and the flag stays true. The horizon and
  the agent's original distance are not zero (with a zero divisor the float distance term
  is NaN instead).
\<close>

theorem destination_follows_position:
  assumes "shaped e" "\<forall>k\<in>set ks. shaped_tick (nagents e) k" "i < nagents e"
    "t \<le> j" "j < length ks" "completion_vector (states e ks ! t) ! i"
    "original_distances e ! i \<noteq> 0" "horizon e \<noteq> 0"
  shows "destination (agents (states e ks ! Suc j)) ! i = tick_position (ks ! j) ! i
       \<and> distance_term (fst (episode e ks ! j)) ! i = 0
       \<and> completion_vector (states e ks ! Suc j) ! i"
proof -
  have j: "j \<le> length ks" "Suc j \<le> length ks" "t \<le> Suc j" using assms(4,5) by simp_all
  have cj: "completion_vector (states e ks ! j) ! i"
    by (rule completion_mono [OF assms(1,2,3,4) j(1) assms(6)])
  have cs: "completion_vector (states e ks ! Suc j) ! i"
    by (rule completion_mono [OF assms(1,2,3) j(3) j(2) assms(6)])
  have "completion_vector (world_update (ks ! j) (states e ks ! j)) ! i"
    using cj by (simp add: world_update_frame)
  then have "normalized_distance (world_update (ks ! j) (states e ks ! j)) i = 0"
    by (rule normalized_distance_completed)
  then have "distance_term (fst (episode e ks ! j)) ! i = 0"
    using distance_term_step [OF assms(1,2,5,3)] by simp
  moreover have "destination (agents (states e ks ! Suc j)) ! i = tick_position (ks ! j) ! i"
    using destination_step [OF assms(1,2,5,3)] cs by simp
  ultimately show ?thesis using cs by simp
qed

theorem destination_follows_position_witness:
  "shaped example_env
   \<and> (1::nat) < nagents example_env \<and> (1::nat) \<le> 1 \<and> 1 < length example_ticks
   \<and> completion_vector (states example_env example_ticks ! 1) ! 1
   \<and> destination (agents (states example_env example_ticks ! 2)) ! 1 = (82, 0)
   \<and> distance_term (fst (episode example_env example_ticks ! 1)) ! 1 = 0"
proof -
  have a: "shaped example_env" by (rule example_env_shaped)
  have b: "\<forall>k\<in>set example_ticks. shaped_tick (nagents example_env) k"
    by (rule example_ticks_shaped)
  have c: "(1::nat) < nagents example_env" by (simp add: example_env_def)
  have d: "(1::nat) \<le> 1" by simp
  have l: "1 < length example_ticks" by (simp add: example_ticks_def)
  have f: "completion_vector (states example_env example_ticks ! 1) ! 1"
    using example_state_1 by simp
  have p: "tick_position (example_ticks ! 1) ! 1 = (82, 0)" by (simp add: example_ticks_def)
  have od: "original_distances example_env ! 1 \<noteq> 0" by (simp add: example_env_def)
  have hn: "horizon example_env \<noteq> 0" by (simp add: example_env_def)
  from destination_follows_position [OF a b c d l f od hn] p
  have "destination (agents (states example_env example_ticks ! 2)) ! 1 = (82, 0)"
    and "distance_term (fst (episode example_env example_ticks ! 1)) ! 1 = 0"
    by (simp_all add: numeral_2_eq_2)
  then show ?thesis using a b c d l f by simp
qed


section \<open>Properties of the observation builder\<close>

lemma example_env_shaped_obs: "shaped_obs example_env"
  by (simp add: shaped_obs_def example_env_def)

lemma clamp_min_ge: "1 \<le> clamp_min 1 d"
  by (simp add: clamp_min_def)

lemma length_inv_dist:
  "shaped_obs e \<Longrightarrow> length (inv_dist e) = nagents e"
  by (simp add: inv_dist_def shaped_obs_def Let_def)

lemma inv_dist_nth:
  assumes "shaped_obs e" "i < nagents e"
  shows "inv_dist e ! i
           = 1 / clamp_min 1 \<bar>fst (destination (agents e) ! i) - fst (position (agents e) ! i)\<bar>"
  using assms by (simp add: inv_dist_def shaped_obs_def Let_def)

lemma state_features_nth:
  assumes "shaped_obs e" "i < nagents e"
  shows "state_features e ! i
           = [inv_dist e ! i, speed (agents e) ! i / v_lim (dynamics e) ! i,
              accln_rating e ! i, vel_rating e ! i]"
  using assms length_inv_dist [OF assms(1)]
  by (simp add: state_features_def col_def shaped_obs_def)

lemma length_state_features:
  assumes "shaped_obs e"
  shows "length (state_features e) = nagents e"
  using assms length_inv_dist [OF assms(1)]
  by (simp add: state_features_def col_def shaped_obs_def)

lemma last_deque_append:
  "0 < m \<Longrightarrow> last (deque_append m q x) = x"
  by (cases q) (simp_all add: deque_append_def Let_def)

lemma get_state_newest:
  assumes "1 < history_len e"
  shows "last (queue1 (snd (get_state scan rnd e))) = state_features e"
  using assms
  by (simp add: get_state_def push_history_def Let_def last_deque_append split: prod.splits)

lemma get_state_no_history:
  assumes "\<not> 1 < history_len e"
  shows "get_state scan rnd e = ((state_features e, lidar_features scan rnd e), e)"
  using assms by (simp add: get_state_def push_history_def)

subsection \<open>Raw state features\<close>

text \<open>
  Claim C8. In the bicycle variants the raw state features of agent \<open>i\<close> are, in this order,
  the inverse clamped distance to the destination \<open>1 / max(distance, 1.0)\<close>, the speed divided
  by the agent's current velocity limit, the acceleration rating and the velocity rating,
  one row per agent. The clamp keeps the denominator at \<open>1\<close> or above for every distance
  \<open>d\<close>, zero included, so the inverse never divides by zero. These features are what
  \<^verbatim>\<open>get_state\<close> returns without history, and the newest entry of the state queue with
  history.
\<close>

theorem raw_state_features:
  assumes "shaped_obs e" "i < nagents e"
  shows "state_features e ! i
           = [1 / max \<bar>fst (destination (agents e) ! i) - fst (position (agents e) ! i)\<bar> 1,
              speed (agents e) ! i / v_lim (dynamics e) ! i,
              accln_rating e ! i,
              vel_rating e ! i]
       \<and> length (state_features e) = nagents e
       \<and> 1 \<le> clamp_min 1 d \<and> 1 / clamp_min 1 0 = 1
       \<and> (if 1 < history_len e
          then last (queue1 (snd (get_state scan rnd e))) = state_features e
          else fst (fst (get_state scan rnd e)) = state_features e)"
  using state_features_nth [OF assms] inv_dist_nth [OF assms]
    length_state_features [OF assms(1)] clamp_min_ge [of d]
    get_state_newest [of e scan rnd] get_state_no_history [of e scan rnd]
  by (simp add: clamp_min_def)

theorem raw_state_features_witness:
  "shaped_obs example_env \<and> (0::nat) < nagents example_env
   \<and> state_features example_env ! 0 = [1 / 5, 1 / 6, 3 / 4, 3 / 4]
   \<and> last (queue1 (snd (get_state [[1, 2, 4], [1, 2, 4]] (\<lambda>i j. 0) example_env)))
       = state_features example_env"
proof -
  have a: "shaped_obs example_env" by (rule example_env_shaped_obs)
  have b: "(0::nat) < nagents example_env" by (simp add: example_env_def)
  have h: "1 < history_len example_env" by (simp add: example_env_def)
  from raw_state_features [OF a b, of 0 "[[1, 2, 4], [1, 2, 4]]" "\<lambda>i j. 0"] h
  have "state_features example_env ! 0 = [1 / 5, 1 / 6, 3 / 4, 3 / 4]"
    and "last (queue1 (snd (get_state [[1, 2, 4], [1, 2, 4]] (\<lambda>i j. 0) example_env)))
           = state_features example_env"
    by (simp_all add: example_env_def)
  then show ?thesis using a b by simp
qed


section \<open>Properties of reset and of the spline variant\<close>

lemma push_history_frame:
  "dynamics (snd (push_history obs lidar e)) = dynamics e"
  "nsteps (snd (push_history obs lidar e)) = nsteps e"
  "agents (snd (push_history obs lidar e)) = agents e"
  "accln_rating (snd (push_history obs lidar e)) = accln_rating e"
  "vel_rating (snd (push_history obs lidar e)) = vel_rating e"
  "max_velocity (snd (push_history obs lidar e)) = max_velocity e"
  by (simp_all add: push_history_def Let_def split: prod.splits)

lemma get_state_frame:
  "dynamics (snd (get_state scan rnd e)) = dynamics e"
  "nsteps (snd (get_state scan rnd e)) = nsteps e"
  "agents (snd (get_state scan rnd e)) = agents e"
  "accln_rating (snd (get_state scan rnd e)) = accln_rating e"
  "vel_rating (snd (get_state scan rnd e)) = vel_rating e"
  "max_velocity (snd (get_state scan rnd e)) = max_velocity e"
  by (simp_all add: get_state_def push_history_frame)

lemma spline_get_state_frame:
  "dynamics (snd (spline_get_state scan rnd e)) = dynamics e"
  "nsteps (snd (spline_get_state scan rnd e)) = nsteps e"
  "agents (snd (spline_get_state scan rnd e)) = agents e"
  "accln_rating (snd (spline_get_state scan rnd e)) = accln_rating e"
  "vel_rating (snd (spline_get_state scan rnd e)) = vel_rating e"
  "max_velocity (snd (spline_get_state scan rnd e)) = max_velocity e"
proof -
  obtain s l e' where p:
    "push_history (spline_state_features e) (lidar_features scan rnd e) e = ((s, l), e')"
    by (metis prod.exhaust)
  have e': "e' = snd (push_history (spline_state_features e) (lidar_features scan rnd e) e)"
    using p by simp
  show "dynamics (snd (spline_get_state scan rnd e)) = dynamics e"
    "nsteps (snd (spline_get_state scan rnd e)) = nsteps e"
    "agents (snd (spline_get_state scan rnd e)) = agents e"
    "accln_rating (snd (spline_get_state scan rnd e)) = accln_rating e"
    "vel_rating (snd (spline_get_state scan rnd e)) = vel_rating e"
    "max_velocity (snd (spline_get_state scan rnd e)) = max_velocity e"
    using push_history_frame [of "spline_state_features e" "lidar_features scan rnd e" e]
    by (simp_all add: spline_get_state_def p flip: e')
qed

lemma get_reward_ratings:
  "accln_rating (snd (get_reward nc a e)) = accln_rating e"
  "vel_rating (snd (get_reward nc a e)) = vel_rating e"
  by (simp_all add: get_reward_def get_reward_terms_def Let_def)

lemma step_stage0:
  assumes "position (agents e) \<noteq> []" "length action = length (position (agents e))"
  shows "step super_step scan rnd 0 action render e
           = Inr (Committed (fst (spline_get_state scan rnd
                    (e\<lparr>dynamics := SplineModel (spline_path e (position (agents e)) action)
                                     (map (\<lambda>r. r * max_velocity e) (vel_rating e))\<rparr>))),
                  snd (spline_get_state scan rnd
                    (e\<lparr>dynamics := SplineModel (spline_path e (position (agents e)) action)
                                     (map (\<lambda>r. r * max_velocity e) (vel_rating e))\<rparr>)))"
  using assms
  by (simp add: step_def discrete_to_continuous_actions_v2_def Let_def split: prod.splits)

lemma spline_path_nth:
  assumes "i < length pos" "length action = length pos"
  shows "spline_path e pos action ! i
           = [pos ! i,
              (fst (pos ! i) + 50, snd (pos ! i) + action ! i * road_width e / 2),
              (road_length e / 2, snd (pos ! i) + action ! i * road_width e / 2),
              (- road_length e / 2, snd (pos ! 0))]"
  using assms by (simp add: spline_path_def Let_def)


lemma add_vehicles_ratings:
  assumes "add_vehicles_to_world rand dfd e0 = Inr e"
  shows "accln_rating e = map (\<lambda>i. float32_add_one (rand i) * (1 / 2)) [0..<nagents e0]"
    and "vel_rating e = accln_rating e"
    and "max_velocity e = 16"
    and "nagents e = nagents e0"
    and "dynamics e = BicycleKinematicsModel (replicate (nagents e0) (448 / 100))
                        (map (\<lambda>r. r * 16) (vel_rating e))"
  using assms
  by (auto simp: add_vehicles_to_world_def store_dynamics_def Let_def split: if_splits)


lemma add_vehicles_returns:
  assumes "0 < nagents e0"
  shows "add_vehicles_to_world rand dfd e0 = Inr (projr (add_vehicles_to_world rand dfd e0))"
  using assms by (simp add: add_vehicles_to_world_def Let_def)

lemma step_stage0_ratings:
  assumes "step super_step scan rnd 0 action render e = Inr (r, e')"
  shows "vel_rating e' = vel_rating e \<and> accln_rating e' = accln_rating e"
proof -
  have p: "position (agents e) \<noteq> []" and l: "length action = length (position (agents e))"
    using assms
    by (auto simp: step_def discrete_to_continuous_actions_v2_def Let_def split: if_splits)
  show ?thesis
    using assms unfolding step_stage0 [OF p l]
    by (auto simp: spline_get_state_frame)
qed

subsection \<open>One draw for both ratings\<close>

lemma round_half_even_bounds:
  "\<lfloor>x\<rfloor> \<le> round_half_even x \<and> round_half_even x \<le> \<lfloor>x\<rfloor> + 1"
  by (simp add: round_half_even_def Let_def)

lemma float32_add_one_range:
  assumes "0 \<le> r" "r < 1"
  shows "1 \<le> float32_add_one r \<and> float32_add_one r \<le> 2"
proof -
  let ?y = "(r + 1) * 2 ^ 23"
  have lo: "(2 ^ 23 :: real) \<le> ?y" using assms(1) by simp
  have hi: "?y < 2 ^ 24" using assms(2) by simp
  have "(2 ^ 23 :: int) \<le> \<lfloor>?y\<rfloor>" using lo by (simp add: le_floor_iff)
  then have l: "(2 ^ 23 :: int) \<le> round_half_even ?y"
    using round_half_even_bounds [of ?y] by linarith
  have "\<lfloor>?y\<rfloor> < (2 ^ 24 :: int)" using hi by (simp add: floor_less_iff)
  then have u: "round_half_even ?y \<le> (2 ^ 24 :: int)"
    using round_half_even_bounds [of ?y] by linarith
  have l': "(2 ^ 23 :: real) \<le> of_int (round_half_even ?y)"
    using l by (metis of_int_le_iff of_int_numeral of_int_power)
  have u': "of_int (round_half_even ?y) \<le> (2 ^ 24 :: real)"
    using u by (metis of_int_le_iff of_int_numeral of_int_power)
  show ?thesis
    using l' u' by (simp add: float32_add_one_def field_simps)
qed

lemma float32_add_one_half: "float32_add_one (1 / 2) = 3 / 2"
  by (simp add: float32_add_one_def round_half_even_def Let_def)

lemma float32_add_one_largest: "float32_add_one (1 - 1 / 2 ^ 24) = 2"
  by (simp add: float32_add_one_def round_half_even_def Let_def)

text \<open>
  Claim C9 as stated fails in its range: for the largest float32 draw below one the sum
  \<^verbatim>\<open>rand + 1\<close> rounds up to \<open>2\<close>, and the rating is exactly \<open>1\<close>, outside \<open>[0.5, 1.0)\<close>.
\<close>

theorem ratings_half_open_counterexample:
  "0 \<le> largest_draw 0 \<and> largest_draw 0 < 1
   \<and> vel_rating (projr (add_vehicles_to_world largest_draw example_distance example_env)) ! 0 = 1
   \<and> \<not> vel_rating (projr (add_vehicles_to_world largest_draw example_distance example_env)) ! 0
         < 1"
proof -
  have n: "0 < nagents example_env" by (simp add: example_env_def)
  note f = add_vehicles_ratings [OF add_vehicles_returns [OF n, of largest_draw example_distance]]
  have "vel_rating (projr (add_vehicles_to_world largest_draw example_distance example_env)) ! 0
          = float32_add_one (largest_draw 0) * (1 / 2)"
    using n by (simp add: f(1,2))
  also have "\<dots> = 1"
    unfolding largest_draw_def float32_add_one_largest by simp
  finally show ?thesis by (simp add: largest_draw_def)
qed

text \<open>
  Claim C9, amended. \<^verbatim>\<open>add_vehicles_to_world\<close>, which every reset runs, assigns the
  acceleration rating tensor itself to the velocity rating: with at least one agent it
  returns a state in which both ratings are the same list, agent \<open>i\<close> holding the float32
  value of \<open>(rand i + 1) * 0.5\<close>, which lies in the closed range \<open>[0.5, 1.0]\<close> for a draw in
  \<open>[0, 1)\<close>. No other operation modelled here changes either rating (\<^verbatim>\<open>get_reward\<close>, both
  \<^verbatim>\<open>get_state\<close> and the stage-0 \<^verbatim>\<open>step\<close> leave them as they are), so the two stay equal
  for the whole episode: one draw, not two.
\<close>

theorem ratings_single_draw:
  assumes "0 < nagents e0"
  shows "\<exists>e. add_vehicles_to_world rand dfd e0 = Inr e
           \<and> vel_rating e = accln_rating e
           \<and> length (accln_rating e) = nagents e0
           \<and> (\<forall>i<nagents e0.
                 accln_rating e ! i = float32_add_one (rand i) * (1 / 2)
                 \<and> (0 \<le> rand i \<and> rand i < 1
                      \<longrightarrow> 1 / 2 \<le> vel_rating e ! i \<and> vel_rating e ! i \<le> 1))
           \<and> vel_rating (snd (get_reward nc a e1)) = vel_rating e1
           \<and> accln_rating (snd (get_reward nc a e1)) = accln_rating e1
           \<and> vel_rating (snd (get_state scan rnd e1)) = vel_rating e1
           \<and> accln_rating (snd (get_state scan rnd e1)) = accln_rating e1
           \<and> vel_rating (snd (spline_get_state scan rnd e1)) = vel_rating e1
           \<and> accln_rating (snd (spline_get_state scan rnd e1)) = accln_rating e1
           \<and> (\<forall>r e2. step super_step scan rnd 0 action render e1 = Inr (r, e2)
                 \<longrightarrow> vel_rating e2 = vel_rating e1 \<and> accln_rating e2 = accln_rating e1)"
proof -
  define e where "e = projr (add_vehicles_to_world rand dfd e0)"
  have r: "add_vehicles_to_world rand dfd e0 = Inr e"
    unfolding e_def by (rule add_vehicles_returns [OF assms])
  note f = add_vehicles_ratings [OF r]
  have len: "length (accln_rating e) = nagents e0" by (simp add: f(1))
  have nth: "accln_rating e ! i = float32_add_one (rand i) * (1 / 2)" if "i < nagents e0" for i
    using that by (simp add: f(1))
  have rng: "1 / 2 \<le> vel_rating e ! i \<and> vel_rating e ! i \<le> 1"
    if "i < nagents e0" "0 \<le> rand i" "rand i < 1" for i
    using nth [OF that(1)] float32_add_one_range [OF that(2,3)] by (simp add: f(2))
  have st: "\<forall>r e2. step super_step scan rnd 0 action render e1 = Inr (r, e2)
              \<longrightarrow> vel_rating e2 = vel_rating e1 \<and> accln_rating e2 = accln_rating e1"
    using step_stage0_ratings by blast
  show ?thesis
    using r f(2) len nth rng st
    by (intro exI [of _ e] conjI allI impI)
       (simp_all add: get_reward_ratings get_state_frame spline_get_state_frame)
qed

theorem ratings_single_draw_witness:
  "(0::nat) < nagents example_env
   \<and> vel_rating (projr (add_vehicles_to_world (\<lambda>i. 1 / 2) (\<lambda>v. [170, 160]) example_env))
       = accln_rating (projr (add_vehicles_to_world (\<lambda>i. 1 / 2) (\<lambda>v. [170, 160]) example_env))
   \<and> vel_rating (projr (add_vehicles_to_world (\<lambda>i. 1 / 2) (\<lambda>v. [170, 160]) example_env)) ! 1
       = 3 / 4"
proof -
  have a: "(0::nat) < nagents example_env" by (simp add: example_env_def)
  have n: "(1::nat) < nagents example_env" by (simp add: example_env_def)
  from ratings_single_draw [OF a, where rand = "\<lambda>i. 1 / 2" and dfd = "\<lambda>v. [170, 160]"
      and nc = "[]" and a = "[]" and ?e1.0 = example_env and scan = "[]" and rnd = "\<lambda>i j. 0"
      and super_step = "\<lambda>a r e. Inr ((), e)" and action = "[]" and render = False]
  obtain e where e: "add_vehicles_to_world (\<lambda>i. 1 / 2) (\<lambda>v. [170, 160]) example_env = Inr e"
    and v: "vel_rating e = accln_rating e"
    and i: "\<forall>i<nagents example_env. accln_rating e ! i = float32_add_one (1 / 2) * (1 / 2)"
    by (elim exE conjE) simp
  from i n have "accln_rating e ! 1 = 3 / 4" by (simp add: float32_add_one_half)
  then show ?thesis using a v by (simp add: e)
qed

subsection \<open>The far-field anchor point\<close>

text \<open>
  Claim C10. A stage-0 call on at least one agent, with one offset per agent, succeeds, and
  the path of agent \<open>i\<close> in the new spline binding is: the agent's position; the midpoint
  \<open>(x + 50, y + offset * width / 2)\<close>; the endpoint \<open>(length / 2, y + offset * width / 2)\<close>,
  both with the agent's own \<open>y\<close> and offset; and the far-field anchor
  \<open>(- length / 2, pos[0, 1])\<close>, whose \<open>y\<close> is that of agent \<open>0\<close> for every agent.
\<close>

theorem far_anchor_shared:
  assumes "position (agents e) \<noteq> []" "length action = length (position (agents e))"
    "i < length (position (agents e))"
  shows "\<exists>obs e'. step super_step scan rnd 0 action render e = Inr (Committed obs, e')
           \<and> spline_points (dynamics e') ! i
               = [position (agents e) ! i,
                  (fst (position (agents e) ! i) + 50,
                   snd (position (agents e) ! i) + action ! i * road_width e / 2),
                  (road_length e / 2,
                   snd (position (agents e) ! i) + action ! i * road_width e / 2),
                  (- road_length e / 2, snd (position (agents e) ! 0))]"
  unfolding step_stage0 [OF assms(1,2)]
  using spline_path_nth [OF assms(3,2)]
  by (simp add: spline_get_state_frame)

theorem far_anchor_shared_witness:
  "spline_points (dynamics (snd (projr
      (step (\<lambda>a r e. Inr ((), e)) [[1, 2, 4], [1, 2, 4]] (\<lambda>i j. 0) 0 [1 / 2, - 1 / 2] False
         (example_env\<lparr>agents := (agents example_env)\<lparr>position := [(70, 3), (80, 0)]\<rparr>\<rparr>))))) ! 1
     = [(80, 0), (130, - 25 / 4), (125, - 25 / 4), (- 125, 3)]"
proof -
  let ?e = "example_env\<lparr>agents := (agents example_env)\<lparr>position := [(70, 3), (80, 0)]\<rparr>\<rparr>"
  have a: "position (agents ?e) \<noteq> []" by simp
  have b: "length [1 / 2, - 1 / 2 :: real] = length (position (agents ?e))" by simp
  have c: "(1::nat) < length (position (agents ?e))" by simp
  have w: "road_width ?e = 25" "road_length ?e = 250" by (simp_all add: example_env_def)
  from far_anchor_shared [OF a b c, of "\<lambda>a r e. Inr ((), e)" "[[1, 2, 4], [1, 2, 4]]" "\<lambda>i j. 0" False]
  obtain obs e' where
    s: "step (\<lambda>a r e. Inr ((), e)) [[1, 2, 4], [1, 2, 4]] (\<lambda>i j. 0) 0 [1 / 2, - 1 / 2] False ?e
          = Inr (Committed obs, e')"
    and p: "spline_points (dynamics e') ! 1
              = [(80, 0), (130, - 25 / 4), (125, - 25 / 4), (- 125, 3)]"
    unfolding w by auto
  show ?thesis unfolding s using p by simp
qed


lemma example_add_vehicles:
  "add_vehicles_to_world example_rand example_distance example_env = Inr example_start"
  by (simp add: add_vehicles_to_world_def store_dynamics_def example_env_def example_start_def
      example_rand_def example_distance_def float32_add_one_def round_half_even_def
      Let_def upt_rec numeral_2_eq_2)

lemma example_reset:
  "spline_reset id example_rand example_distance example_env = Inr example_start"
proof -
  have e: "example_env\<lparr>got_spline_state := False, road_length := 250, road_width := 25\<rparr>
             = example_env"
    by (simp add: example_env_def)
  have q: "example_start\<lparr>queue1 := [], queue2 := []\<rparr> = example_start"
    by (simp add: example_start_def example_env_def)
  have h: "\<not> history_len example_start < 0"
    by (simp add: example_start_def example_env_def)
  show ?thesis
    by (simp add: spline_reset_def reset_def e example_add_vehicles q h)
qed

subsection \<open>Stage 0 rebinds the dynamics\<close>



subsection \<open>The stage argument\<close>

text \<open>
  \<^verbatim>\<open>step\<close> rejects a stage other than \<open>0\<close> and \<open>1\<close> with an assertion error, and hands a
  stage-1 call to the base class's \<^verbatim>\<open>step\<close> without a check of its own: the call returns
  what the base class returns, and fails exactly when the base class fails.
\<close>

lemma step_stage_dispatch:
  "(stage \<noteq> 0 \<and> stage \<noteq> 1
      \<longrightarrow> step super_step scan rnd stage action render e = Inl AssertionError)
   \<and> step super_step scan rnd 1 action render e
       = (case super_step action render e of
            Inl err \<Rightarrow> Inl err
          | Inr (r, e') \<Rightarrow> Inr (Stepped r, e'))"
  by (simp add: step_def split: prod.splits)

section \<open>Properties of the history buffer\<close>





































subsection \<open>History of fixed length\<close>




end
